theory Spec2Isabelle
  imports Complex_Main
begin

section \<open>Numeric cells and Python arithmetic\<close>

text \<open>
  The scripts work on pandas data frames whose numeric columns hold floats. A cell is
  a number or NaN; NaN is also what pandas stores where a row function returns Python's
  \<^verbatim>\<open>None\<close>. A cell is modelled as \<open>real option\<close>, \<open>None\<close> standing for NaN,
  and arithmetic on the numbers is exact. Every comparison with NaN is false and every
  arithmetic operation with NaN gives NaN, as in Python.
\<close>

type_synonym cell = "real option"

datatype py_error = ZeroDivisionError | ValueError

definition isna :: "cell \<Rightarrow> bool" where
  "isna c = (c = None)"

definition c_add :: "cell \<Rightarrow> cell \<Rightarrow> cell" where
  "c_add a b = (case a of None \<Rightarrow> None | Some x \<Rightarrow> (case b of None \<Rightarrow> None | Some y \<Rightarrow> Some (x + y)))"

definition c_sub :: "cell \<Rightarrow> cell \<Rightarrow> cell" where
  "c_sub a b = (case a of None \<Rightarrow> None | Some x \<Rightarrow> (case b of None \<Rightarrow> None | Some y \<Rightarrow> Some (x - y)))"

definition c_mul :: "cell \<Rightarrow> cell \<Rightarrow> cell" where
  "c_mul a b = (case a of None \<Rightarrow> None | Some x \<Rightarrow> (case b of None \<Rightarrow> None | Some y \<Rightarrow> Some (x * y)))"

definition c_abs :: "cell \<Rightarrow> cell" where
  "c_abs a = (case a of None \<Rightarrow> None | Some x \<Rightarrow> Some \<bar>x\<bar>)"

definition c_lt :: "cell \<Rightarrow> cell \<Rightarrow> bool" where
  "c_lt a b = (case a of None \<Rightarrow> False | Some x \<Rightarrow> (case b of None \<Rightarrow> False | Some y \<Rightarrow> x < y))"

definition c_le :: "cell \<Rightarrow> cell \<Rightarrow> bool" where
  "c_le a b = (case a of None \<Rightarrow> False | Some x \<Rightarrow> (case b of None \<Rightarrow> False | Some y \<Rightarrow> x \<le> y))"

definition c_gt :: "cell \<Rightarrow> cell \<Rightarrow> bool" where
  "c_gt a b = c_lt b a"

definition c_eq :: "cell \<Rightarrow> cell \<Rightarrow> bool" where
  "c_eq a b = (case a of None \<Rightarrow> False | Some x \<Rightarrow> (case b of None \<Rightarrow> False | Some y \<Rightarrow> x = y))"

text \<open>
  Python's \<^verbatim>\<open>/\<close> on numbers: a zero divisor raises \<^verbatim>\<open>ZeroDivisionError\<close>
  (also when the dividend is NaN); otherwise NaN propagates.
\<close>

definition py_div :: "cell \<Rightarrow> cell \<Rightarrow> py_error + cell" where
  "py_div a b =
     (case b of
        None \<Rightarrow> Inr None
      | Some y \<Rightarrow>
          if y = 0 then Inl ZeroDivisionError
          else (case a of None \<Rightarrow> Inr None | Some x \<Rightarrow> Inr (Some (x / y))))"

text \<open>
  Python's \<^verbatim>\<open>round\<close> rounds to the nearest value and a tie to the even neighbour.
  \<^verbatim>\<open>round(x)\<close> returns an integer and raises \<^verbatim>\<open>ValueError\<close> on NaN;
  \<^verbatim>\<open>round(x, n)\<close> returns a float and gives NaN on NaN. The \<^verbatim>\<open>round(n)\<close>
  of a pandas column rounds each cell in the same way.
\<close>

definition round_half_even :: "real \<Rightarrow> int" where
  "round_half_even x =
     (let f = \<lfloor>x\<rfloor>; d = x - of_int f
      in if d < 1 / 2 then f
         else if 1 / 2 < d then f + 1
         else if even f then f else f + 1)"

definition round_nd :: "real \<Rightarrow> nat \<Rightarrow> real" where
  "round_nd x n = of_int (round_half_even (x * 10 ^ n)) / 10 ^ n"

definition py_round :: "cell \<Rightarrow> py_error + cell" where
  "py_round c = (case c of None \<Rightarrow> Inl ValueError | Some x \<Rightarrow> Inr (Some (of_int (round_half_even x))))"

definition py_round_nd :: "cell \<Rightarrow> nat \<Rightarrow> cell" where
  "py_round_nd c n = (case c of None \<Rightarrow> None | Some x \<Rightarrow> Some (round_nd x n))"

section \<open>Tables\<close>

text \<open>
  A row of a data frame is a record of the columns the valuation rules read or write;
  the columns that are only carried along (player id, gender, team, positions) are left
  out. The records extend one another as the tables of the scripts do: every table has
  the tier, the cleaned and combined tables the price, the combined historical table
  (\<^verbatim>\<open>apl_historical_data.csv\<close>) the columns of \<open>row\<close>, and the master table
  (\<^verbatim>\<open>apl_master_data.csv\<close>) the derived columns of \<open>master_row\<close>. The auction guide
  is the master table under other column names, held in \<open>guide_row\<close>.
\<close>

record tiered =
  Tier :: int

record priced = tiered +
  Price :: cell

record row = priced +
  Player_Name :: string
  Edition :: string
  Value_Rating :: cell
  Ranking :: cell
  Edition_Count :: int
  In_Latest_Edition :: bool

record master_row = row +
  Historical_Avg_Price :: cell
  Historical_Min_Price :: cell
  Historical_Max_Price :: cell
  Historical_Avg_Tier :: cell
  Price_Variance_From_Avg :: cell
  Tier_Movement :: cell
  Value_Proposition :: cell
  Tier_Min_Ranking :: cell
  Is_Tier_Top :: bool
  Export_Date :: string
  Data_Version :: string
  Recommended_Price :: cell

record guide_row = tiered +
  Value_Score :: cell
  APL_Editions :: int
  Top_In_Tier :: bool

section \<open>Value rating (clean\_processed\_data.py, combine\_apl\_data.py)\<close>

text \<open>
  \<^verbatim>\<open>calculate_value\<close> of the cleaning script tests the price against 0 only;
  \<^verbatim>\<open>calculate_value_rating\<close> of the combining script also tests \<^verbatim>\<open>pd.isna\<close>.
\<close>

definition calculate_value :: "'a priced_scheme \<Rightarrow> py_error + cell" where
  "calculate_value row =
     (if c_eq (Price row) (Some 0) then Inr (Some 0)
      else
        let tier_multiplier = 5 - Tier row
        in case py_div (Some (of_int (tier_multiplier * 10))) (Price row) of
             Inl e \<Rightarrow> Inl e
           | Inr q \<Rightarrow> Inr (py_round_nd q 2))"

definition calculate_value_rating :: "'a priced_scheme \<Rightarrow> py_error + cell" where
  "calculate_value_rating row =
     (if c_eq (Price row) (Some 0) \<or> isna (Price row) then Inr (Some 0)
      else
        let tier_multiplier = 5 - Tier row
        in case py_div (Some (of_int (tier_multiplier * 10))) (Price row) of
             Inl e \<Rightarrow> Inl e
           | Inr q \<Rightarrow> Inr (py_round_nd q 2))"

section \<open>Auction priority (generate\_auction\_guide.py)\<close>

definition Auction_Priority :: "'a master_row_scheme \<Rightarrow> string" where
  "Auction_Priority row =
     (if Is_Tier_Top row \<or> c_gt (Value_Proposition row) (Some 1.5) then ''High''
      else if c_gt (Value_Proposition row) (Some 1.0) then ''Medium''
      else ''Low'')"

section \<open>Auction score (generate\_auction\_top\_picks.py)\<close>


section \<open>Maximum bid (waterfall\_dashboard.py)\<close>

text \<open>
  The division is guarded by \<^verbatim>\<open>players_needed > 0\<close>, so it never sees a zero
  divisor. The function has no clamp: the multiplier and the budget are used as given.
\<close>

definition calculate_max_bid :: "real \<Rightarrow> int \<Rightarrow> real \<Rightarrow> bool \<Rightarrow> real" where
  "calculate_max_bid remaining_budget players_needed player_value is_high_priority =
     (let avg_per_player =
            (if 0 < players_needed then remaining_budget / of_int players_needed else 0);
          max_bid =
            (if is_high_priority
             then avg_per_player * (1.5 + (player_value - 1) * 0.5)
             else avg_per_player * (1 + (player_value - 1) * 0.3))
      in min max_bid remaining_budget)"

section \<open>The valuation engine (update\_combined\_data.py)\<close>

subsection \<open>Row functions\<close>

text \<open>
  The row functions read a row of the table as it stands when they are applied. Division
  by the literal 100 cannot fail and is written \<open>c_div_by\<close>.
\<close>

definition c_div_by :: "cell \<Rightarrow> real \<Rightarrow> cell" where
  "c_div_by a k = (case a of None \<Rightarrow> None | Some x \<Rightarrow> Some (x / k))"

text \<open>Step 4: the lambda that fills \<^verbatim>\<open>Price_Variance_From_Avg\<close>.\<close>

definition price_variance :: "'a master_row_scheme \<Rightarrow> cell" where
  "price_variance row =
     (if 1 < Edition_Count row then c_sub (Price row) (Historical_Avg_Price row) else Some 0)"

text \<open>Step 5.\<close>

definition calculate_tier_movement :: "'a master_row_scheme \<Rightarrow> cell" where
  "calculate_tier_movement row =
     (if Edition_Count row \<le> 1 then Some 0
      else if Edition row = ''APL 8.0'' then
        let prev_tier = Historical_Avg_Tier row;
            current_tier = Some (of_int (Tier row))
        in c_sub current_tier prev_tier
      else Some 0)"

text \<open>Step 6.\<close>

definition calculate_value_proposition :: "'a master_row_scheme \<Rightarrow> cell" where
  "calculate_value_proposition row =
     (if Edition row \<noteq> ''APL 8.0'' then None
      else
        let base_score = Value_Rating row;
            tier_factor =
              (if c_lt (Tier_Movement row) (Some 0) then 1.2
               else if c_gt (Tier_Movement row) (Some 0) then 0.8
               else 1.0);
            price_factor =
              (if 1 < Edition_Count row then
                 (if c_lt (Price_Variance_From_Avg row) (Some 0) then 1.2
                  else if c_gt (Price_Variance_From_Avg row) (Some 0) then 0.8
                  else 1.0)
               else 1.0);
            value_prop = c_mul (c_mul base_score (Some tier_factor)) (Some price_factor)
        in py_round_nd value_prop 2)"

text \<open>Step 7: the lambda that fills \<^verbatim>\<open>Is_Tier_Top\<close>.\<close>

definition is_tier_top :: "'a master_row_scheme \<Rightarrow> bool" where
  "is_tier_top row =
     (if Edition row = ''APL 8.0''
      then c_le (Ranking row) (c_add (Tier_Min_Ranking row) (Some 2))
      else False)"

text \<open>Step 9. The final \<^verbatim>\<open>round\<close> has no digits argument, so it raises on NaN.\<close>

definition recommend_price :: "'a master_row_scheme \<Rightarrow> py_error + cell" where
  "recommend_price row =
     (if Edition row \<noteq> ''APL 8.0'' then Inr None
      else
        let base_price = Price row
        in if 1 < Edition_Count row then
             let historical_weight = min 0.3 (0.1 * of_int (Edition_Count row));
                 current_weight = 1 - historical_weight;
                 blended_price =
                   c_add (c_mul (Some current_weight) base_price)
                         (c_mul (Some historical_weight) (Historical_Avg_Price row));
                 blended_price =
                   (if c_lt (Tier_Movement row) (Some 0) then
                      let tier_bonus = c_mul (c_abs (Tier_Movement row)) (Some 5)
                      in c_mul blended_price (c_add (Some 1) (c_div_by tier_bonus 100))
                    else if c_gt (Tier_Movement row) (Some 0) then
                      let tier_penalty = c_mul (Tier_Movement row) (Some 5)
                      in c_mul blended_price (c_sub (Some 1) (c_div_by tier_penalty 100))
                    else blended_price)
             in py_round blended_price
           else Inr base_price)"

subsection \<open>Aggregates\<close>

text \<open>
  The aggregates of a pandas group skip NaN, and give NaN when nothing is left.
\<close>

fun dropna :: "cell list \<Rightarrow> real list" where
  "dropna [] = []"
| "dropna (None # cs) = dropna cs"
| "dropna (Some x # cs) = x # dropna cs"

definition mean :: "real list \<Rightarrow> cell" where
  "mean xs = (if xs = [] then None else Some (sum_list xs / of_nat (length xs)))"

definition minimum :: "real list \<Rightarrow> cell" where
  "minimum xs = (case xs of [] \<Rightarrow> None | x # ys \<Rightarrow> Some (fold min ys x))"

definition maximum :: "real list \<Rightarrow> cell" where
  "maximum xs = (case xs of [] \<Rightarrow> None | x # ys \<Rightarrow> Some (fold max ys x))"

text \<open>
  Step 2: the group of a player name, and the aggregates that step 3 merges back (the
  means rounded to 1 decimal). The group's counts, its smallest and largest tier and its
  first edition count are computed by the script and never used, and are left out.
\<close>

definition player_group :: "string \<Rightarrow> 'a row_scheme list \<Rightarrow> 'a row_scheme list" where
  "player_group name df = filter (\<lambda>r. Player_Name r = name) df"

definition player_avg_price :: "string \<Rightarrow> 'a row_scheme list \<Rightarrow> cell" where
  "player_avg_price name df = py_round_nd (mean (dropna (map Price (player_group name df)))) 1"

definition player_min_price :: "string \<Rightarrow> 'a row_scheme list \<Rightarrow> cell" where
  "player_min_price name df = minimum (dropna (map Price (player_group name df)))"

definition player_max_price :: "string \<Rightarrow> 'a row_scheme list \<Rightarrow> cell" where
  "player_max_price name df = maximum (dropna (map Price (player_group name df)))"

definition player_avg_tier :: "string \<Rightarrow> 'a row_scheme list \<Rightarrow> cell" where
  "player_avg_tier name df =
     py_round_nd (mean (map (\<lambda>r. of_int (Tier r)) (player_group name df))) 1"

text \<open>
  Step 7: the smallest ranking among the rows of the latest edition in a tier; NaN when
  the tier has no such row with a ranking.
\<close>

definition tier_min_ranking :: "int \<Rightarrow> 'a row_scheme list \<Rightarrow> cell" where
  "tier_min_ranking tier df =
     minimum (dropna (map Ranking (filter (\<lambda>r. Edition r = ''APL 8.0'' \<and> Tier r = tier) df)))"

subsection \<open>The pipeline\<close>

text \<open>
  Each step is a function on the table. The left merge of step 3 keeps the rows and
  their order and adds the historical columns of the row's player; a column that a
  later step adds is held as NaN (False, the empty string) until that step fills it,
  and no step reads a column before it is filled.
\<close>

definition set_latest_flag :: "row list \<Rightarrow> row list" where
  "set_latest_flag df = map (\<lambda>r. r\<lparr>In_Latest_Edition := (Edition r = ''APL 8.0'')\<rparr>) df"

definition merge_history_row :: "row list \<Rightarrow> row \<Rightarrow> master_row" where
  "merge_history_row df r =
     \<lparr>Tier = Tier r, Price = Price r, Player_Name = Player_Name r, Edition = Edition r,
      Value_Rating = Value_Rating r, Ranking = Ranking r, Edition_Count = Edition_Count r,
      In_Latest_Edition = In_Latest_Edition r,
      Historical_Avg_Price = player_avg_price (Player_Name r) df,
      Historical_Min_Price = player_min_price (Player_Name r) df,
      Historical_Max_Price = player_max_price (Player_Name r) df,
      Historical_Avg_Tier = player_avg_tier (Player_Name r) df,
      Price_Variance_From_Avg = None, Tier_Movement = None, Value_Proposition = None,
      Tier_Min_Ranking = None, Is_Tier_Top = False, Export_Date = [], Data_Version = [],
      Recommended_Price = None\<rparr>"

definition merge_history :: "row list \<Rightarrow> master_row list" where
  "merge_history df = map (merge_history_row df) df"

definition add_price_variance :: "master_row list \<Rightarrow> master_row list" where
  "add_price_variance df = map (\<lambda>r. r\<lparr>Price_Variance_From_Avg := price_variance r\<rparr>) df"

definition add_tier_movement :: "master_row list \<Rightarrow> master_row list" where
  "add_tier_movement df = map (\<lambda>r. r\<lparr>Tier_Movement := calculate_tier_movement r\<rparr>) df"

definition add_value_proposition :: "master_row list \<Rightarrow> master_row list" where
  "add_value_proposition df =
     map (\<lambda>r. r\<lparr>Value_Proposition := calculate_value_proposition r\<rparr>) df"

definition merge_tier_rankings :: "master_row list \<Rightarrow> master_row list" where
  "merge_tier_rankings df = map (\<lambda>r. r\<lparr>Tier_Min_Ranking := tier_min_ranking (Tier r) df\<rparr>) df"

definition add_is_tier_top :: "master_row list \<Rightarrow> master_row list" where
  "add_is_tier_top df = map (\<lambda>r. r\<lparr>Is_Tier_Top := is_tier_top r\<rparr>) df"

definition add_export_metadata :: "string \<Rightarrow> master_row list \<Rightarrow> master_row list" where
  "add_export_metadata today df = map (\<lambda>r. r\<lparr>Export_Date := today, Data_Version := ''1.0''\<rparr>) df"

text \<open>
  \<^verbatim>\<open>DataFrame.apply\<close> with a row function that can raise: the first row that raises
  ends the run.
\<close>

fun apply_rows :: "('a \<Rightarrow> py_error + 'b) \<Rightarrow> 'a list \<Rightarrow> py_error + 'b list" where
  "apply_rows f [] = Inr []"
| "apply_rows f (x # xs) =
     (case f x of
        Inl e \<Rightarrow> Inl e
      | Inr y \<Rightarrow> (case apply_rows f xs of Inl e \<Rightarrow> Inl e | Inr ys \<Rightarrow> Inr (y # ys)))"

definition set_recommended_price :: "master_row \<Rightarrow> py_error + master_row" where
  "set_recommended_price r =
     (case recommend_price r of Inl e \<Rightarrow> Inl e | Inr p \<Rightarrow> Inr (r\<lparr>Recommended_Price := p\<rparr>))"

text \<open>
  Steps 1 to 7 of the script, and the whole run: the table read from
  \<^verbatim>\<open>apl_historical_data.csv\<close> to the table written to \<^verbatim>\<open>apl_master_data.csv\<close>,
  with the date of the run as a parameter.
\<close>

definition derive_columns :: "row list \<Rightarrow> master_row list" where
  "derive_columns combined_df =
     add_is_tier_top (merge_tier_rankings (add_value_proposition (add_tier_movement
       (add_price_variance (merge_history (set_latest_flag combined_df))))))"

definition updated_df :: "string \<Rightarrow> row list \<Rightarrow> py_error + master_row list" where
  "updated_df today combined_df =
     apply_rows set_recommended_price (add_export_metadata today (derive_columns combined_df))"

section \<open>Example rows\<close>

text \<open>A row of the auction guide, with the tier-top flag and the value proposition left open.\<close>

definition guide_example :: "bool \<Rightarrow> cell \<Rightarrow> master_row" where
  "guide_example is_top vp =
     \<lparr>Tier = 2, Price = Some 10, Player_Name = ''A'', Edition = ''APL 8.0'',
      Value_Rating = Some 3, Ranking = Some 7, Edition_Count = 1, In_Latest_Edition = True,
      Historical_Avg_Price = Some 10, Historical_Min_Price = Some 10,
      Historical_Max_Price = Some 10, Historical_Avg_Tier = Some 2,
      Price_Variance_From_Avg = Some 0, Tier_Movement = Some 0, Value_Proposition = vp,
      Tier_Min_Ranking = Some 1, Is_Tier_Top = is_top, Export_Date = ''2025-01-01'',
      Data_Version = ''1.0'', Recommended_Price = Some 10\<rparr>"

text \<open>
  A row of the combined historical table, and a small table: player A in two editions and
  player B new in the latest one, with the master table the run of 2025-01-01 writes for it.
\<close>

definition combined_row ::
  "string \<Rightarrow> string \<Rightarrow> int \<Rightarrow> cell \<Rightarrow> cell \<Rightarrow> cell \<Rightarrow> int \<Rightarrow> row" where
  "combined_row name edition tier price rating ranking editions =
     \<lparr>Tier = tier, Price = price, Player_Name = name, Edition = edition,
      Value_Rating = rating, Ranking = ranking, Edition_Count = editions,
      In_Latest_Edition = (edition = ''APL 8.0'')\<rparr>"



text \<open>
  A tier of the latest edition with three players whose rankings are 1, 5 and 9.
\<close>

definition gapped_rankings :: "row list" where
  "gapped_rankings =
     [combined_row ''A'' ''APL 8.0'' 1 (Some 40) (Some 1) (Some 1) 1,
      combined_row ''B'' ''APL 8.0'' 1 (Some 40) (Some 1) (Some 5) 1,
      combined_row ''C'' ''APL 8.0'' 1 (Some 40) (Some 1) (Some 9) 1]"

section \<open>The tier-top flag as the specification words it\<close>

text \<open>
  The specification calls a player a tier top when the record is of the latest edition
  and the player is among the top 3 by ranking within the tier for that edition: the
  player has a ranking, and fewer than 3 rows of the latest edition in the same tier have
  a smaller one. This definition follows the specification, not the script; the script's
  flag is \<open>is_tier_top\<close>.
\<close>

definition among_top_three :: "'a row_scheme \<Rightarrow> 'b row_scheme list \<Rightarrow> bool" where
  "among_top_three row df =
     (case Ranking row of
        None \<Rightarrow> False
      | Some x \<Rightarrow>
          length (filter (\<lambda>y. y < x)
            (dropna (map Ranking
               (filter (\<lambda>r. Edition r = ''APL 8.0'' \<and> Tier r = Tier row) df)))) < 3)"

definition tier_top_as_specified :: "'a row_scheme \<Rightarrow> 'b row_scheme list \<Rightarrow> bool" where
  "tier_top_as_specified row df = (Edition row = ''APL 8.0'' \<and> among_top_three row df)"

section \<open>Properties\<close>

subsection \<open>Value rating\<close>

lemma calculate_value_never_divides_by_zero:
  "calculate_value row \<noteq> Inl ZeroDivisionError"
  by (cases "Price row") (auto simp: calculate_value_def c_eq_def py_div_def Let_def)

lemma calculate_value_rating_never_divides_by_zero:
  "calculate_value_rating row \<noteq> Inl ZeroDivisionError"
  by (cases "Price row") (auto simp: calculate_value_rating_def c_eq_def isna_def py_div_def Let_def)

text \<open>
  Claim C7, as the code has it. For a price above 0 both implementations return
  \<open>(5 - tier) * 10 / price\<close> rounded to 2 decimals, and for the price 0 both return 0.
  For a missing price only the combining script's \<^verbatim>\<open>calculate_value_rating\<close> returns
  0: the cleaning script's \<^verbatim>\<open>calculate_value\<close> has no test for a missing price and
  yields a missing value (its input table has the missing prices replaced by 0 by
  \<^verbatim>\<open>process_apl_data.py\<close>). Neither implementation ever divides by zero, whatever the
  tier and the price.
\<close>

theorem value_rating_by_price:
  "(Price row = Some p \<and> 0 < p \<longrightarrow>
       calculate_value row = Inr (Some (round_nd (of_int ((5 - Tier row) * 10) / p) 2)) \<and>
       calculate_value_rating row = Inr (Some (round_nd (of_int ((5 - Tier row) * 10) / p) 2))) \<and>
   (Price row = Some 0 \<longrightarrow>
       calculate_value row = Inr (Some 0) \<and> calculate_value_rating row = Inr (Some 0)) \<and>
   (Price row = None \<longrightarrow>
       calculate_value row = Inr None \<and> calculate_value_rating row = Inr (Some 0)) \<and>
   calculate_value row \<noteq> Inl ZeroDivisionError \<and>
   calculate_value_rating row \<noteq> Inl ZeroDivisionError"
proof -
  have pos: "Price row = Some p \<Longrightarrow> 0 < p \<Longrightarrow>
       calculate_value row = Inr (Some (round_nd (of_int ((5 - Tier row) * 10) / p) 2)) \<and>
       calculate_value_rating row = Inr (Some (round_nd (of_int ((5 - Tier row) * 10) / p) 2))"
    by (simp add: calculate_value_def calculate_value_rating_def c_eq_def isna_def py_div_def
        py_round_nd_def Let_def)
  have zero: "Price row = Some 0 \<Longrightarrow>
       calculate_value row = Inr (Some 0) \<and> calculate_value_rating row = Inr (Some 0)"
    by (simp add: calculate_value_def calculate_value_rating_def c_eq_def)
  have missing: "Price row = None \<Longrightarrow>
       calculate_value row = Inr None \<and> calculate_value_rating row = Inr (Some 0)"
    by (simp add: calculate_value_def calculate_value_rating_def c_eq_def isna_def py_div_def
        py_round_nd_def Let_def)
  show ?thesis
    using pos zero missing calculate_value_never_divides_by_zero [of row]
      calculate_value_rating_never_divides_by_zero [of row]
    by blast
qed

text \<open>The three cases at concrete rows: tier 2 at price 4.5, tier 1 at price 0, tier 3 with no price.\<close>

theorem value_rating_by_price_witness:
  "calculate_value \<lparr>Tier = 2, Price = Some 4.5\<rparr> = Inr (Some 6.67) \<and>
   calculate_value_rating \<lparr>Tier = 2, Price = Some 4.5\<rparr> = Inr (Some 6.67) \<and>
   calculate_value \<lparr>Tier = 1, Price = Some 0\<rparr> = Inr (Some 0) \<and>
   calculate_value_rating \<lparr>Tier = 1, Price = Some 0\<rparr> = Inr (Some 0) \<and>
   calculate_value \<lparr>Tier = 3, Price = None\<rparr> = Inr None \<and>
   calculate_value_rating \<lparr>Tier = 3, Price = None\<rparr> = Inr (Some 0)"
  using value_rating_by_price [of "\<lparr>Tier = 2, Price = Some 4.5\<rparr>" "4.5"]
    value_rating_by_price [of "\<lparr>Tier = 1, Price = Some 0\<rparr>"]
    value_rating_by_price [of "\<lparr>Tier = 3, Price = None\<rparr>"]
  by (simp add: round_nd_def round_half_even_def Let_def)

text \<open>
  The claim as stated fails for the cleaning script at a missing price: it does not
  return 0 there.
\<close>

theorem missing_price_counterexample:
  "calculate_value \<lparr>Tier = 1, Price = None\<rparr> = Inr None \<and>
   calculate_value \<lparr>Tier = 1, Price = None\<rparr> \<noteq> Inr (Some 0)"
  by (simp add: calculate_value_def c_eq_def py_div_def py_round_nd_def Let_def)

subsection \<open>Auction priority\<close>

lemma auction_priority_cases:
  "Auction_Priority row =
     (if Is_Tier_Top row \<or> (case Value_Proposition row of None \<Rightarrow> False | Some v \<Rightarrow> 1.5 < v) then ''High''
      else if (case Value_Proposition row of None \<Rightarrow> False | Some v \<Rightarrow> 1.0 < v) then ''Medium''
      else ''Low'')"
  by (cases "Value_Proposition row") (simp_all add: Auction_Priority_def c_gt_def c_lt_def)

text \<open>
  Claim C5. The priority is High exactly when the row is a tier top or its value
  proposition is a number above 1.5, Medium exactly when it is not High and the value
  proposition is a number above 1.0, and Low exactly when it is neither.
\<close>

theorem auction_priority_thresholds:
  "(Auction_Priority row = ''High'') =
     (Is_Tier_Top row \<or> (case Value_Proposition row of None \<Rightarrow> False | Some v \<Rightarrow> 1.5 < v)) \<and>
   (Auction_Priority row = ''Medium'') =
     (\<not> (Is_Tier_Top row \<or> (case Value_Proposition row of None \<Rightarrow> False | Some v \<Rightarrow> 1.5 < v)) \<and>
      (case Value_Proposition row of None \<Rightarrow> False | Some v \<Rightarrow> 1.0 < v)) \<and>
   (Auction_Priority row = ''Low'') =
     (\<not> (Is_Tier_Top row \<or> (case Value_Proposition row of None \<Rightarrow> False | Some v \<Rightarrow> 1.5 < v)) \<and>
      \<not> (case Value_Proposition row of None \<Rightarrow> False | Some v \<Rightarrow> 1.0 < v))"
  unfolding auction_priority_cases by simp

text \<open>The examples of the claim: (False, 1.6), (False, 1.2), (False, 0.5), and a tier top.\<close>

theorem auction_priority_thresholds_witness:
  "Auction_Priority (guide_example False (Some 1.6)) = ''High'' \<and>
   Auction_Priority (guide_example False (Some 1.2)) = ''Medium'' \<and>
   Auction_Priority (guide_example False (Some 0.5)) = ''Low'' \<and>
   Auction_Priority (guide_example True (Some 0.5)) = ''High''"
  using auction_priority_thresholds [of "guide_example False (Some 1.6)"]
    auction_priority_thresholds [of "guide_example False (Some 1.2)"]
    auction_priority_thresholds [of "guide_example False (Some 0.5)"]
    auction_priority_thresholds [of "guide_example True (Some 0.5)"]
  by (simp add: guide_example_def)

text \<open>
  Claim C10. A row whose value proposition is missing and which is not a tier top is
  classified Low: both comparisons with NaN are false and nothing is raised.
\<close>

theorem missing_value_proposition_is_low:
  "Value_Proposition row = None \<Longrightarrow> \<not> Is_Tier_Top row \<Longrightarrow> Auction_Priority row = ''Low''"
  by (simp add: Auction_Priority_def c_gt_def c_lt_def)

theorem missing_value_proposition_is_low_witness:
  "Value_Proposition (guide_example False None) = None \<and>
   \<not> Is_Tier_Top (guide_example False None) \<and>
   Auction_Priority (guide_example False None) = ''Low''"
proof -
  have vp: "Value_Proposition (guide_example False None) = None"
    by (simp add: guide_example_def)
  have not_top: "\<not> Is_Tier_Top (guide_example False None)"
    by (simp add: guide_example_def)
  from missing_value_proposition_is_low [OF vp not_top] vp not_top show ?thesis by simp
qed

subsection \<open>Maximum bid\<close>

text \<open>
  Claim C3, as the code has it. The bid is the smaller of the remaining budget and the
  average per player times the multiplier, where the average is 0 when no player is
  needed. The multiplier is not clamped: the bid is non-negative whenever the remaining
  budget and the value score are non-negative (the multiplier is then at least 0.7).
\<close>

theorem max_bid_formula:
  "calculate_max_bid b n v h =
     min b ((if 0 < n then b / of_int n else 0) *
            (if h then 1.5 + (v - 1) * 0.5 else 1 + (v - 1) * 0.3)) \<and>
   (0 \<le> b \<and> 0 \<le> v \<longrightarrow> 0 \<le> calculate_max_bid b n v h)"
proof -
  have eq: "calculate_max_bid b n v h =
     min b ((if 0 < n then b / of_int n else 0) *
            (if h then 1.5 + (v - 1) * 0.5 else 1 + (v - 1) * 0.3))"
    by (simp add: calculate_max_bid_def Let_def min.commute)
  have nonneg: "0 \<le> calculate_max_bid b n v h" if b: "0 \<le> b" and v: "0 \<le> v"
  proof -
    have avg: "0 \<le> (if 0 < n then b / of_int n else 0)" using b by simp
    have m: "0 \<le> (if h then 1.5 + (v - 1) * 0.5 else 1 + (v - 1) * 0.3)"
    proof (cases h)
      case True
      have "0 \<le> 1.5 + (v - 1) * 0.5" using v by (simp add: field_simps)
      with True show ?thesis by simp
    next
      case False
      have "0 \<le> 1 + (v - 1) * 0.3" using v by (simp add: field_simps)
      with False show ?thesis by simp
    qed
    from avg m have "0 \<le> (if 0 < n then b / of_int n else 0) *
            (if h then 1.5 + (v - 1) * 0.5 else 1 + (v - 1) * 0.3)"
      by (rule mult_nonneg_nonneg)
    with b show ?thesis unfolding eq by simp
  qed
  from eq nonneg show ?thesis by blast
qed

text \<open>The worked example: budget 50, 5 players needed, value score 2.0, high priority.\<close>

theorem max_bid_formula_witness:
  "(0::real) \<le> 50 \<and> (0::real) \<le> 2.0 \<and> calculate_max_bid 50 5 2.0 True = 20 \<and>
   0 \<le> calculate_max_bid 50 5 2.0 True"
  using max_bid_formula [of 50 5 "2.0" True] by simp

text \<open>
  The claim as stated fails: with a value score of -4 the high-priority multiplier is
  -1 and the bid is negative.
\<close>

theorem max_bid_negative_counterexample:
  "calculate_max_bid 50 5 (- 4) True = - 10 \<and> \<not> 0 \<le> calculate_max_bid 50 5 (- 4) True"
  by (simp add: calculate_max_bid_def Let_def)

subsection \<open>Auction score\<close>



subsection \<open>Tier movement\<close>

text \<open>
  Claim C4, as the code has it. The tier movement is 0 when the edition count is at
  most 1 and also when the row is not of the latest edition (the last branch of
  \<^verbatim>\<open>calculate_tier_movement\<close>); for a row of the latest edition with more than one
  edition it is the current tier minus the historical average tier.
\<close>

theorem tier_movement_cases:
  "(Edition_Count row \<le> 1 \<or> Edition row \<noteq> ''APL 8.0'' \<longrightarrow>
      calculate_tier_movement row = Some 0) \<and>
   (1 < Edition_Count row \<and> Edition row = ''APL 8.0'' \<and> Historical_Avg_Tier row = Some h \<longrightarrow>
      calculate_tier_movement row = Some (of_int (Tier row) - h))"
  by (auto simp: calculate_tier_movement_def c_sub_def Let_def)

text \<open>
  A returning player of the latest edition who moved from an average of 1.7 to tier 1, a
  new player, and a returning player's row of an earlier edition.
\<close>

theorem tier_movement_cases_witness:
  "calculate_tier_movement
     ((guide_example False None)\<lparr>Edition_Count := 3, Tier := 1, Historical_Avg_Tier := Some 1.7\<rparr>)
     = Some (- 0.7) \<and>
   calculate_tier_movement ((guide_example False None)\<lparr>Edition_Count := 1\<rparr>) = Some 0 \<and>
   calculate_tier_movement
     ((guide_example False None)\<lparr>Edition := ''APL 7.0'', Edition_Count := 2,
        Historical_Avg_Tier := Some 1.5\<rparr>) = Some 0"
  using tier_movement_cases
      [of "(guide_example False None)\<lparr>Edition_Count := 3, Tier := 1, Historical_Avg_Tier := Some 1.7\<rparr>" "1.7"]
    tier_movement_cases [of "(guide_example False None)\<lparr>Edition_Count := 1\<rparr>"]
    tier_movement_cases
      [of "(guide_example False None)\<lparr>Edition := ''APL 7.0'', Edition_Count := 2,
        Historical_Avg_Tier := Some 1.5\<rparr>"]
  by (simp add: guide_example_def)

text \<open>
  The claim as stated fails on a row of an earlier edition: with 2 editions, tier 2 and
  a historical average tier of 1.5 the movement is 0, not 0.5.
\<close>

theorem tier_movement_other_edition_counterexample:
  "calculate_tier_movement
     ((guide_example False None)\<lparr>Edition := ''APL 7.0'', Edition_Count := 2,
        Tier := 2, Historical_Avg_Tier := Some 1.5\<rparr>) = Some 0 \<and>
   calculate_tier_movement
     ((guide_example False None)\<lparr>Edition := ''APL 7.0'', Edition_Count := 2,
        Tier := 2, Historical_Avg_Tier := Some 1.5\<rparr>) \<noteq> Some (2 - 1.5)"
  by (simp add: calculate_tier_movement_def guide_example_def)

subsection \<open>Recommended price\<close>



subsection \<open>Value proposition\<close>



subsection \<open>The run on the example tables\<close>

lemmas pipeline_defs =
  updated_df_def derive_columns_def set_latest_flag_def merge_history_def merge_history_row_def
  add_price_variance_def add_tier_movement_def add_value_proposition_def merge_tier_rankings_def
  add_is_tier_top_def add_export_metadata_def set_recommended_price_def
  price_variance_def calculate_tier_movement_def calculate_value_proposition_def
  is_tier_top_def recommend_price_def tier_min_ranking_def
  player_group_def player_avg_price_def player_min_price_def player_max_price_def
  player_avg_tier_def mean_def minimum_def maximum_def
  c_add_def c_sub_def c_mul_def c_abs_def c_lt_def c_gt_def c_le_def c_div_by_def
  py_round_def py_round_nd_def round_nd_def round_half_even_def Let_def


subsection \<open>Tier top\<close>

text \<open>A row of another edition is never flagged.\<close>

lemma is_tier_top_other_edition:
  "Edition row \<noteq> ''APL 8.0'' \<Longrightarrow> \<not> is_tier_top row"
  by (simp add: is_tier_top_def)

text \<open>
  Claim C8. The script flags a row of the latest edition when its ranking is at most the
  smallest ranking of its tier plus 2, which is the top 3 of the tier only when the
  rankings of the tier are consecutive. On the tier with the rankings 1, 5 and 9 the
  script flags the first player alone, while all three players are among the top 3 of the
  tier.
\<close>

theorem tier_top_on_gapped_rankings:
  "map_sum id (map Is_Tier_Top) (updated_df ''2025-01-01'' gapped_rankings)
     = Inr [True, False, False] \<and>
   map (\<lambda>r. tier_top_as_specified r gapped_rankings) gapped_rankings = [True, True, True]"
proof -
  have run: "map_sum id (map Is_Tier_Top) (updated_df ''2025-01-01'' gapped_rankings)
     = Inr [True, False, False]"
    by (simp add: gapped_rankings_def combined_row_def pipeline_defs)
  have spec: "map (\<lambda>r. tier_top_as_specified r gapped_rankings) gapped_rankings
     = [True, True, True]"
    by (simp add: gapped_rankings_def combined_row_def tier_top_as_specified_def
        among_top_three_def)
  from run spec show ?thesis by simp
qed

subsection \<open>Running the engine again\<close>
















end
